theory Spec2Isabelle
  imports Complex_Main
begin

section \<open>Errors\<close>

text \<open>
  Every error of the sources is built by \<^verbatim>\<open>fmt.Errorf\<close>: a message and nothing else.
  A Go \<^verbatim>\<open>error\<close> is an interface value, so a result of that type is an
  \<open>error option\<close>, \<open>None\<close> being \<^verbatim>\<open>nil\<close>.
\<close>

datatype error = Errorf string

section \<open>config.go\<close>

text \<open>
  The configuration structs, field by field. Go's \<^verbatim>\<open>int\<close> is an \<open>int\<close> (no
  arithmetic is done on these fields), \<^verbatim>\<open>float64\<close> is a \<open>real\<close> (the only value
  the sources store in it is the literal 10, which a binary float holds exactly), a
  \<^verbatim>\<open>[]string\<close> is a \<open>string list\<close>. A field that a composite literal leaves out
  has Go's zero value: \<open>0\<close> or the empty string.
\<close>

definition postgresDB :: string where
  "postgresDB = ''postgres''"

text \<open>
  \<^verbatim>\<open>bcrypt.DefaultCost\<close> of golang.org/x/crypto/bcrypt, the one constant of
  \<^verbatim>\<open>config.go\<close> that another package declares.
\<close>

definition bcrypt_DefaultCost :: int where
  "bcrypt_DefaultCost = 10"

record serverConfig =
  Host :: string
  CertFile :: string
  KeyFile :: string
  CookieAuthKeyFile :: string
  CookieEncryptionKeyFile :: string
  CookieMaxAge :: int
  CookieSessionName :: string
  HttpsReadTimeoutSeconds :: int
  HttpsWriteTimeoutSeconds :: int
  RedirectReadTimeoutSeconds :: int
  RedirectWriteTimeoutSeconds :: int
  StaticRootDirectory :: string
  SaltSize :: int
  BCryptStrength :: int
  RSAKeySize :: int

definition defaultServerConfig :: serverConfig where
  "defaultServerConfig =
     \<lparr> serverConfig.Host = [], CertFile = [], KeyFile = [], CookieAuthKeyFile = [],
       CookieEncryptionKeyFile = [],
       CookieMaxAge = 86400,
       CookieSessionName = [],
       HttpsReadTimeoutSeconds = 0, HttpsWriteTimeoutSeconds = 0,
       RedirectReadTimeoutSeconds = 0, RedirectWriteTimeoutSeconds = 0,
       StaticRootDirectory = [],
       SaltSize = 32,
       BCryptStrength = bcrypt_DefaultCost,
       RSAKeySize = 1024 \<rparr>"

record oAuthConfig =
  AccessTokenExpiry :: int
  RefreshTokenExpiry :: int

definition defaultOAuthConfig :: oAuthConfig where
  "defaultOAuthConfig = \<lparr> AccessTokenExpiry = 3600, RefreshTokenExpiry = 7200 \<rparr>"

record postgresConfig =
  DatabaseName :: string
  UserName :: string
  Host :: string
  Port :: int
  SSLMode :: string
  FallbackApplicationName :: string
  ConnectTimeout :: int
  SSLCert :: string
  SSLKey :: string
  SSLRootCert :: string
  Schema :: string

definition defaultPostgresConfig :: postgresConfig where
  "defaultPostgresConfig =
     \<lparr> DatabaseName = [], UserName = [], postgresConfig.Host = [], Port = 0, SSLMode = [],
       FallbackApplicationName = [], ConnectTimeout = 0, SSLCert = [], SSLKey = [],
       SSLRootCert = [], Schema = [] \<rparr>"

record databaseConfig =
  DatabaseKind :: string
  ConnMaxLifetimeSeconds :: int
  MaxOpenConns :: int
  MaxIdleConns :: int
  DefaultCollectionPageSize :: int
  PostgresConfig :: postgresConfig

text \<open>
  \<^verbatim>\<open>defaultDatabaseConfig\<close> has two named results, \<^verbatim>\<open>d\<close> and \<^verbatim>\<open>err\<close>. It fills
  \<^verbatim>\<open>d\<close> first and then checks the kind, so on the error path \<^verbatim>\<open>d\<close> is returned as
  filled so far (its \<^verbatim>\<open>PostgresConfig\<close> still the zero struct, which is also what
  \<^verbatim>\<open>defaultPostgresConfig\<close> returns).
\<close>

definition defaultDatabaseConfig :: "string \<Rightarrow> databaseConfig \<times> error option" where
  "defaultDatabaseConfig dbkind =
     (let d = \<lparr> DatabaseKind = dbkind,
                ConnMaxLifetimeSeconds = 0,
                MaxOpenConns = 0,
                MaxIdleConns = 2,
                DefaultCollectionPageSize = 10,
                PostgresConfig =
                  \<lparr> DatabaseName = [], UserName = [], postgresConfig.Host = [], Port = 0,
                    SSLMode = [], FallbackApplicationName = [], ConnectTimeout = 0,
                    SSLCert = [], SSLKey = [], SSLRootCert = [], Schema = [] \<rparr> \<rparr>
      in if dbkind \<noteq> postgresDB
         then (d, Some (Errorf (''unsupported database kind: '' @ dbkind)))
         else (d \<lparr> PostgresConfig := defaultPostgresConfig \<rparr>, None))"

record httpSignaturesConfig =
  Algorithms :: "string list"
  DigestAlgorithm :: string
  GetHeaders :: "string list"
  PostHeaders :: "string list"

definition defaultHttpSignaturesConfig :: httpSignaturesConfig where
  "defaultHttpSignaturesConfig =
     \<lparr> Algorithms = [''sha256'', ''sha512''],
       DigestAlgorithm = ''SHA-256'',
       GetHeaders = [''(request-target)'', ''Date'', ''Digest''],
       PostHeaders = [''(request-target)'', ''Date'', ''Digest''] \<rparr>"

record activityPubConfig =
  ClockTimezone :: string
  OutboundRateLimitQPS :: real
  OutboundRateLimitBurst :: int
  HttpSignaturesConfig :: httpSignaturesConfig
  MaxInboxForwardingRecursionDepth :: int
  MaxDeliveryRecursionDepth :: int

definition defaultActivityPubConfig :: activityPubConfig where
  "defaultActivityPubConfig =
     \<lparr> ClockTimezone = ''UTC'',
       OutboundRateLimitQPS = 10,
       OutboundRateLimitBurst = 50,
       HttpSignaturesConfig = defaultHttpSignaturesConfig,
       MaxInboxForwardingRecursionDepth = 50,
       MaxDeliveryRecursionDepth = 50 \<rparr>"

record config =
  ServerConfig :: serverConfig
  OAuthConfig :: oAuthConfig
  DatabaseConfig :: databaseConfig
  ActivityPubConfig :: activityPubConfig

text \<open>
  \<^verbatim>\<open>defaultConfig\<close> returns a pointer and an error. When \<^verbatim>\<open>defaultDatabaseConfig\<close>
  fails it returns at once, the pointer still \<^verbatim>\<open>nil\<close> (\<open>None\<close>) and the error passed on.
\<close>

definition defaultConfig :: "string \<Rightarrow> config option \<times> error option" where
  "defaultConfig dbkind =
     (case defaultDatabaseConfig dbkind of
        (dbc, Some err) \<Rightarrow> (None, Some err)
      | (dbc, None) \<Rightarrow>
          (Some \<lparr> ServerConfig = defaultServerConfig,
                  OAuthConfig = defaultOAuthConfig,
                  DatabaseConfig = dbc,
                  ActivityPubConfig = defaultActivityPubConfig \<rparr>,
           None))"

section \<open>The storage behind the actor (apdb)\<close>

text \<open>
  \<^verbatim>\<open>apdb\<close> is declared to be a \<^verbatim>\<open>pub.Database\<close> of the go-fed library and wraps a
  pointer to the application's \<^verbatim>\<open>database\<close>, a type declared in another file: it is
  the type parameter \<open>'d\<close>. The types of other packages that the methods only pass
  on are parameters too: \<open>'c\<close> is \<^verbatim>\<open>context.Context\<close>, \<open>'t\<close> is \<^verbatim>\<open>vocab.Type\<close>,
  \<open>'p\<close> is \<^verbatim>\<open>vocab.ActivityStreamsOrderedCollectionPage\<close> and \<open>'l\<close> is
  \<^verbatim>\<open>vocab.ActivityStreamsCollection\<close>. A \<^verbatim>\<open>*url.URL\<close> is a \<open>URL option\<close> and a value
  of an interface type is an option as well, \<open>None\<close> being \<^verbatim>\<open>nil\<close>.

  Every method has a pointer receiver, so each model takes the store and returns it
  with the results. The body of every method is a \<^verbatim>\<open>// TODO\<close> comment and a
  \<^verbatim>\<open>return\<close>: nothing is assigned to the receiver, and the named results keep Go's
  zero values (\<^verbatim>\<open>false\<close>, \<^verbatim>\<open>nil\<close>).
\<close>

type_synonym URL = string

record 'd apdb =
  db :: 'd

definition newApdb :: "'d \<Rightarrow> 'd apdb" where
  "newApdb d = \<lparr> db = d \<rparr>"

definition Lock :: "'d apdb \<Rightarrow> 'c \<Rightarrow> URL option \<Rightarrow> 'd apdb \<times> error option" where
  "Lock a c iri = (a, None)"

definition Unlock :: "'d apdb \<Rightarrow> 'c \<Rightarrow> URL option \<Rightarrow> 'd apdb \<times> error option" where
  "Unlock a c iri = (a, None)"

definition InboxContains ::
  "'d apdb \<Rightarrow> 'c \<Rightarrow> URL option \<Rightarrow> URL option \<Rightarrow> 'd apdb \<times> bool \<times> error option" where
  "InboxContains a c inbox iri = (a, False, None)"

definition GetInbox :: "'d apdb \<Rightarrow> 'c \<Rightarrow> URL option \<Rightarrow> 'd apdb \<times> 'p option \<times> error option" where
  "GetInbox a c inboxIRI = (a, None, None)"

definition SetInbox :: "'d apdb \<Rightarrow> 'c \<Rightarrow> 'p option \<Rightarrow> 'd apdb \<times> error option" where
  "SetInbox a c inbox = (a, None)"

definition Owns :: "'d apdb \<Rightarrow> 'c \<Rightarrow> URL option \<Rightarrow> 'd apdb \<times> bool \<times> error option" where
  "Owns a c iri = (a, False, None)"

definition ActorForOutbox ::
  "'d apdb \<Rightarrow> 'c \<Rightarrow> URL option \<Rightarrow> 'd apdb \<times> URL option \<times> error option" where
  "ActorForOutbox a c outboxIRI = (a, None, None)"

definition ActorForInbox ::
  "'d apdb \<Rightarrow> 'c \<Rightarrow> URL option \<Rightarrow> 'd apdb \<times> URL option \<times> error option" where
  "ActorForInbox a c inboxIRI = (a, None, None)"

definition OutboxForInbox ::
  "'d apdb \<Rightarrow> 'c \<Rightarrow> URL option \<Rightarrow> 'd apdb \<times> URL option \<times> error option" where
  "OutboxForInbox a c inboxIRI = (a, None, None)"

definition Exists :: "'d apdb \<Rightarrow> 'c \<Rightarrow> URL option \<Rightarrow> 'd apdb \<times> bool \<times> error option" where
  "Exists a c iri = (a, False, None)"

definition Get :: "'d apdb \<Rightarrow> 'c \<Rightarrow> URL option \<Rightarrow> 'd apdb \<times> 't option \<times> error option" where
  "Get a c iri = (a, None, None)"

definition Create :: "'d apdb \<Rightarrow> 'c \<Rightarrow> 't option \<Rightarrow> 'd apdb \<times> error option" where
  "Create a c asType = (a, None)"

definition Update :: "'d apdb \<Rightarrow> 'c \<Rightarrow> 't option \<Rightarrow> 'd apdb \<times> error option" where
  "Update a c asType = (a, None)"

definition Delete :: "'d apdb \<Rightarrow> 'c \<Rightarrow> URL option \<Rightarrow> 'd apdb \<times> error option" where
  "Delete a c iri = (a, None)"

definition GetOutbox :: "'d apdb \<Rightarrow> 'c \<Rightarrow> URL option \<Rightarrow> 'd apdb \<times> 'p option \<times> error option" where
  "GetOutbox a c inboxIRI = (a, None, None)"

definition SetOutbox :: "'d apdb \<Rightarrow> 'c \<Rightarrow> 'p option \<Rightarrow> 'd apdb \<times> error option" where
  "SetOutbox a c inbox = (a, None)"

definition NewId :: "'d apdb \<Rightarrow> 'c \<Rightarrow> 't option \<Rightarrow> 'd apdb \<times> URL option \<times> error option" where
  "NewId a c t = (a, None, None)"

definition Followers :: "'d apdb \<Rightarrow> 'c \<Rightarrow> URL option \<Rightarrow> 'd apdb \<times> 'l option \<times> error option" where
  "Followers a c actorIRI = (a, None, None)"

definition Following :: "'d apdb \<Rightarrow> 'c \<Rightarrow> URL option \<Rightarrow> 'd apdb \<times> 'l option \<times> error option" where
  "Following a c actorIRI = (a, None, None)"

definition Liked :: "'d apdb \<Rightarrow> 'c \<Rightarrow> URL option \<Rightarrow> 'd apdb \<times> 'l option \<times> error option" where
  "Liked a c actorIRI = (a, None, None)"

subsection \<open>Traces of lock calls\<close>

text \<open>
  \<^verbatim>\<open>apdb\<close> keeps no record of who holds a lock. To speak of holders, a trace of calls
  is run against the store and a list is kept beside it: a caller holds an identifier
  from the moment its \<^verbatim>\<open>Lock\<close> call returns \<^verbatim>\<open>nil\<close> until its \<^verbatim>\<open>Unlock\<close> call
  returns \<^verbatim>\<open>nil\<close>. The calls themselves are the methods above.
\<close>

datatype 'h lockCall = Acquire 'h URL | Release 'h URL

fun lockStep ::
  "'c \<Rightarrow> 'd apdb \<times> ('h \<times> URL) list \<Rightarrow> 'h lockCall \<Rightarrow> 'd apdb \<times> ('h \<times> URL) list" where
  "lockStep c (a, held) (Acquire h iri) =
     (case Lock a c (Some iri) of
        (a', None) \<Rightarrow> (a', (h, iri) # held)
      | (a', Some err) \<Rightarrow> (a', held))"
| "lockStep c (a, held) (Release h iri) =
     (case Unlock a c (Some iri) of
        (a', None) \<Rightarrow> (a', removeAll (h, iri) held)
      | (a', Some err) \<Rightarrow> (a', held))"

definition lockTrace :: "'c \<Rightarrow> 'd apdb \<Rightarrow> 'h lockCall list \<Rightarrow> 'd apdb \<times> ('h \<times> URL) list" where
  "lockTrace c a calls = foldl (lockStep c) (a, []) calls"

definition holders :: "'d apdb \<times> ('h \<times> URL) list \<Rightarrow> URL \<Rightarrow> 'h list" where
  "holders s iri = map fst (filter (\<lambda>hi. snd hi = iri) (snd s))"

section \<open>ap_actor.go\<close>

text \<open>
  \<^verbatim>\<open>newActor\<close> asks the \<^verbatim>\<open>Application\<close> two questions, \<^verbatim>\<open>C2SEnabled()\<close> and
  \<^verbatim>\<open>S2SEnabled()\<close>; the application is modelled by its two answers. The other
  arguments are pointers to types that other files declare and that
  \<^verbatim>\<open>newActor\<close> only hands on: \<open>'k\<close> is the \<^verbatim>\<open>clock\<close>, \<open>'p\<close> the \<^verbatim>\<open>paths\<close>, \<open>'d\<close>
  the \<^verbatim>\<open>database\<close>, \<open>'o\<close> the \<^verbatim>\<open>oAuth2Server\<close> and \<open>'x\<close> the
  \<^verbatim>\<open>transportController\<close>.

  The three behaviours are built by \<^verbatim>\<open>newCommonBehavior\<close>, \<^verbatim>\<open>newSocialBehavior\<close> and
  \<^verbatim>\<open>newFederatingBehavior\<close>, and the actor by \<^verbatim>\<open>pub.NewActor\<close>, \<^verbatim>\<open>pub.NewSocialActor\<close>
  or \<^verbatim>\<open>pub.NewFederatingActor\<close> of the go-fed library. None of the six is defined in
  \<^verbatim>\<open>ap_actor.go\<close>, so each is a constructor that keeps the arguments it was given: the
  value says which function built it and from what.
\<close>

record application =
  C2SEnabled :: bool
  S2SEnabled :: bool

datatype ('p, 'd, 'x, 'o) commonBehavior = newCommonBehavior application 'p 'd 'x 'o

datatype ('d, 'o) socialBehavior = newSocialBehavior application 'd 'o

datatype ('p, 'd, 'x) federatingBehavior = newFederatingBehavior config application 'p 'd 'x

datatype ('p, 'd, 'x, 'o, 'k) actor =
    NewActor "('p, 'd, 'x, 'o) commonBehavior" "('d, 'o) socialBehavior"
      "('p, 'd, 'x) federatingBehavior" "'d apdb" 'k
  | NewSocialActor "('p, 'd, 'x, 'o) commonBehavior" "('d, 'o) socialBehavior" "'d apdb" 'k
  | NewFederatingActor "('p, 'd, 'x, 'o) commonBehavior" "('p, 'd, 'x) federatingBehavior"
      "'d apdb" 'k

text \<open>
  The results \<^verbatim>\<open>actor\<close> and \<^verbatim>\<open>err\<close> are named and start as \<^verbatim>\<open>nil\<close>; each branch of
  the \<^verbatim>\<open>if\<close> chain sets one of them. The chain has no final \<^verbatim>\<open>else\<close>: falling
  through it would return both \<^verbatim>\<open>nil\<close>.
\<close>

definition newActor ::
  "config \<Rightarrow> application \<Rightarrow> 'k \<Rightarrow> 'p \<Rightarrow> 'd \<Rightarrow> 'd apdb \<Rightarrow> 'o \<Rightarrow> 'x
     \<Rightarrow> ('p, 'd, 'x, 'o, 'k) actor option \<times> error option" where
  "newActor c a clock p d ap oa tc =
     (let common = newCommonBehavior a p d tc oa;
          cs = C2SEnabled a;
          ss = S2SEnabled a
      in if \<not> cs \<and> \<not> ss then
           (None, Some (Errorf ''neither C2S nor S2S are enabled by the Application''))
         else if cs \<and> ss then
           (let c2s = newSocialBehavior a d oa;
                s2s = newFederatingBehavior c a p d tc
            in (Some (NewActor common c2s s2s ap clock), None))
         else if cs then
           (let c2s = newSocialBehavior a d oa
            in (Some (NewSocialActor common c2s ap clock), None))
         else if ss then
           (let s2s = newFederatingBehavior c a p d tc
            in (Some (NewFederatingActor common s2s ap clock), None))
         else (None, None))"

section \<open>framework.go\<close>

text \<open>
  The struct \<^verbatim>\<open>framework\<close>. Its field \<^verbatim>\<open>o\<close> is written \<open>o'\<close> here, \<open>o\<close> being
  HOL's composition of functions. The field \<^verbatim>\<open>actor\<close> is a \<^verbatim>\<open>pub.Actor\<close>, an
  interface value, so it may be \<^verbatim>\<open>nil\<close>.
\<close>

record ('p, 'd, 'x, 'o, 'k) framework =
  scheme :: string
  host :: string
  o' :: 'o
  db :: "'d apdb"
  actor :: "('p, 'd, 'x, 'o, 'k) actor option"
  federationEnabled :: bool

definition newFramework ::
  "string \<Rightarrow> string \<Rightarrow> 'o \<Rightarrow> 'd apdb \<Rightarrow> ('p, 'd, 'x, 'o, 'k) actor option \<Rightarrow> bool
     \<Rightarrow> ('p, 'd, 'x, 'o, 'k) framework" where
  "newFramework sch hst oa ap act fed =
     \<lparr> scheme = sch, host = hst, o' = oa, framework.db = ap, actor = act,
       federationEnabled = fed \<rparr>"

text \<open>
  Modelled from the spec: the type assertion \<^verbatim>\<open>f.actor.(pub.FederatingActor)\<close>. Which
  actors the go-fed library makes a \<^verbatim>\<open>pub.FederatingActor\<close> is declared in that
  library, not in the repository; the spec says that the composed actor supports
  outbound federation, and \<^verbatim>\<open>Send\<close> can succeed, only in the federating-only and the
  combined case. The assertion yields the actor itself when it is one of those two and
  fails (\<open>None\<close>) for a social-only actor and for \<^verbatim>\<open>nil\<close>.
\<close>

fun asFederatingActor ::
  "('p, 'd, 'x, 'o, 'k) actor option \<Rightarrow> ('p, 'd, 'x, 'o, 'k) actor option" where
  "asFederatingActor None = None"
| "asFederatingActor (Some (NewActor common c2s s2s ap clock)) =
     Some (NewActor common c2s s2s ap clock)"
| "asFederatingActor (Some (NewSocialActor common c2s ap clock)) = None"
| "asFederatingActor (Some (NewFederatingActor common s2s ap clock)) =
     Some (NewFederatingActor common s2s ap clock)"

text \<open>
  \<^verbatim>\<open>Send\<close>. The method \<^verbatim>\<open>Send\<close> of \<^verbatim>\<open>pub.FederatingActor\<close> belongs to the go-fed
  library; it is the parameter \<open>fa_Send\<close>, which returns an activity (of a type \<open>'v\<close>)
  and an error. \<^verbatim>\<open>framework.Send\<close> drops the activity and returns the error.
\<close>

definition Send ::
  "(('p, 'd, 'x, 'o, 'k) actor \<Rightarrow> 'c \<Rightarrow> URL option \<Rightarrow> 't option \<Rightarrow> 'v option \<times> error option)
     \<Rightarrow> ('p, 'd, 'x, 'o, 'k) framework \<Rightarrow> 'c \<Rightarrow> URL option \<Rightarrow> 't option \<Rightarrow> error option" where
  "Send fa_Send f c outbox t =
     (if \<not> federationEnabled f then
        Some (Errorf ''cannot Send: Framework.Send called when federation is not enabled'')
      else
        (case asFederatingActor (actor f) of
           None \<Rightarrow>
             Some (Errorf
               ''cannot Send: pub.Actor is not a pub.FederatingActor with federation enabled'')
         | Some fa \<Rightarrow> snd (fa_Send fa c outbox t)))"

text \<open>
  \<^verbatim>\<open>ValidateOAuth2AccessToken\<close> hands the response writer (\<open>'w\<close>) and the request
  (\<open>'r\<close>) to the method of the same name of the \<^verbatim>\<open>oAuth2Server\<close> in field \<^verbatim>\<open>o\<close> and
  returns what it returns. That method is the parameter \<open>o_Validate\<close>.
\<close>

definition ValidateOAuth2AccessToken ::
  "('o \<Rightarrow> 'w \<Rightarrow> 'r \<Rightarrow> 'i option \<times> bool \<times> error option)
     \<Rightarrow> ('p, 'd, 'x, 'o, 'k) framework \<Rightarrow> 'w \<Rightarrow> 'r \<Rightarrow> 'i option \<times> bool \<times> error option" where
  "ValidateOAuth2AccessToken o_Validate f w r = o_Validate (o' f) w r"

text \<open>
  Which of the three library constructors built an actor, under the names the spec
  gives the three composed states.
\<close>

datatype variant = SocialOnly | FederatingOnly | Combined

fun variantOf :: "('p, 'd, 'x, 'o, 'k) actor \<Rightarrow> variant" where
  "variantOf (NewActor common c2s s2s ap clock) = Combined"
| "variantOf (NewSocialActor common c2s ap clock) = SocialOnly"
| "variantOf (NewFederatingActor common s2s ap clock) = FederatingOnly"

section \<open>The OAuth2 server\<close>

text \<open>
  \<^verbatim>\<open>framework.go\<close> calls the method \<^verbatim>\<open>ValidateOAuth2AccessToken\<close> of the
  \<^verbatim>\<open>oAuth2Server\<close>; the type and the method are declared in another file of the
  repository, which this development does not cover. What follows is taken from the
  spec (sections 3, 4.5, 6, 7 and 8).
\<close>

text \<open>
  Modelled from the spec: the token of a credential (the struct behind
  \<^verbatim>\<open>oauth2.TokenInfo\<close> is missing), "associated with zero or one local actor and a
  set of granted scopes".
\<close>

record tokenInfo =
  tokenActor :: "URL option"
  tokenScopes :: "string list"

text \<open>
  Modelled from the spec: what a request presents to the gate (the request type is
  missing). It carries no credential, a malformed one, or a well-formed bearer
  credential.
\<close>

datatype credential = Malformed | Bearer string

record request =
  credential :: "credential option"

text \<open>
  Modelled from the spec: the state of \<^verbatim>\<open>oAuth2Server\<close> (the struct is missing). The
  credential store holds the token of every credential that is valid now, so a revoked
  credential is not in it; the store may be unavailable (\<open>None\<close>), the spec's
  "storage unavailable".
\<close>

record oAuth2Server =
  tokenStore :: "(string \<rightharpoonup> tokenInfo) option"

text \<open>
  Modelled from the spec: the error kind \<^verbatim>\<open>ValidationFailure\<close>, "credential subsystem
  broke" (the error the missing method returns).
\<close>

definition ValidationFailure :: error where
  "ValidationFailure = Errorf ''ValidationFailure''"

text \<open>
  Modelled from the spec: \<^verbatim>\<open>oAuth2Server.ValidateOAuth2AccessToken\<close> (the method is
  missing). "(a) valid credential present: authenticated with token; (b) no credential
  or malformed credential: not authenticated, no error; (c) a credential validation
  subsystem failure (e.g., storage unavailable): error". Only a well-formed credential
  is looked up in the store: found, it authenticates the request with its token; not
  found (revoked), the request is not authenticated and there is no error; a lookup
  while the store is unavailable is the failure of the subsystem.
\<close>

definition oAuth2Server_ValidateOAuth2AccessToken ::
  "oAuth2Server \<Rightarrow> 'w \<Rightarrow> request \<Rightarrow> tokenInfo option \<times> bool \<times> error option" where
  "oAuth2Server_ValidateOAuth2AccessToken srv w r =
     (case credential r of
        None \<Rightarrow> (None, False, None)
      | Some Malformed \<Rightarrow> (None, False, None)
      | Some (Bearer tok) \<Rightarrow>
          (case tokenStore srv of
             None \<Rightarrow> (None, False, Some ValidationFailure)
           | Some store \<Rightarrow>
               (case store tok of
                  None \<Rightarrow> (None, False, None)
                | Some ti \<Rightarrow> (Some ti, True, None))))"

section \<open>Values for the examples\<close>

text \<open>
  A stored object, as far as the examples need one: the type name and the id that any
  \<^verbatim>\<open>vocab.Type\<close> reports.
\<close>

record vocabType =
  TypeName :: string
  JSONLDId :: "URL option"

definition exampleNote :: vocabType where
  "exampleNote = \<lparr> TypeName = ''Note'', JSONLDId = Some ''https://example.com/notes/1'' \<rparr>"

definition editedNote :: vocabType where
  "editedNote = \<lparr> TypeName = ''Article'', JSONLDId = Some ''https://example.com/notes/1'' \<rparr>"

text \<open>
  A configuration, an application for each pair of answers, the actor composed for it
  (every collaborator the unit value) and a framework around that actor.
\<close>

definition exampleConfig :: config where
  "exampleConfig =
     \<lparr> ServerConfig = defaultServerConfig,
       OAuthConfig = defaultOAuthConfig,
       DatabaseConfig = fst (defaultDatabaseConfig postgresDB),
       ActivityPubConfig = defaultActivityPubConfig \<rparr>"

definition exampleApp :: "bool \<Rightarrow> bool \<Rightarrow> application" where
  "exampleApp cs ss = \<lparr> C2SEnabled = cs, S2SEnabled = ss \<rparr>"

definition composed ::
  "bool \<Rightarrow> bool \<Rightarrow> (unit, unit, unit, unit, unit) actor option \<times> error option" where
  "composed cs ss = newActor exampleConfig (exampleApp cs ss) () () () (newApdb ()) () ()"

definition exampleFramework ::
  "bool \<Rightarrow> bool \<Rightarrow> bool \<Rightarrow> (unit, unit, unit, unit, unit) framework" where
  "exampleFramework cs ss fed =
     newFramework ''https'' ''example.com'' () (newApdb ()) (fst (composed cs ss)) fed"

text \<open>
  Two stand-ins for the library's \<^verbatim>\<open>Send\<close>: one that delivers and one that fails.
\<close>

definition delivering ::
  "(unit, unit, unit, unit, unit) actor \<Rightarrow> unit \<Rightarrow> URL option \<Rightarrow> vocabType option
     \<Rightarrow> vocabType option \<times> error option" where
  "delivering fa c outbox t = (t, None)"

definition undeliverable ::
  "(unit, unit, unit, unit, unit) actor \<Rightarrow> unit \<Rightarrow> URL option \<Rightarrow> vocabType option
     \<Rightarrow> vocabType option \<times> error option" where
  "undeliverable fa c outbox t = (None, Some (Errorf ''no route to peer''))"

text \<open>
  An OAuth2 server whose store knows one credential, and one whose store is down.
\<close>

definition annToken :: tokenInfo where
  "annToken = \<lparr> tokenActor = Some ''https://example.com/actors/ann'', tokenScopes = [''read''] \<rparr>"

definition serverUp :: oAuth2Server where
  "serverUp = \<lparr> tokenStore = Some [''s3cret'' \<mapsto> annToken] \<rparr>"

definition serverDown :: oAuth2Server where
  "serverDown = \<lparr> tokenStore = None \<rparr>"

definition gate :: "oAuth2Server \<Rightarrow> (unit, unit, unit, oAuth2Server, unit) framework" where
  "gate srv = newFramework ''https'' ''example.com'' srv (newApdb ()) None False"

section \<open>The default configuration\<close>

lemma defaultDatabaseConfig_postgres:
  "defaultDatabaseConfig ''postgres'' =
     (\<lparr> DatabaseKind = ''postgres'', ConnMaxLifetimeSeconds = 0, MaxOpenConns = 0,
        MaxIdleConns = 2, DefaultCollectionPageSize = 10,
        PostgresConfig = defaultPostgresConfig \<rparr>, None)"
  by (simp add: defaultDatabaseConfig_def postgresDB_def)

lemma defaultDatabaseConfig_other:
  assumes "dbkind \<noteq> ''postgres''"
  shows "snd (defaultDatabaseConfig dbkind) =
           Some (Errorf (''unsupported database kind: '' @ dbkind))"
  using assms by (simp add: defaultDatabaseConfig_def postgresDB_def Let_def)

lemma defaultDatabaseConfig_page_size:
  "DefaultCollectionPageSize (fst (defaultDatabaseConfig dbkind)) = 10"
  by (simp add: defaultDatabaseConfig_def Let_def)

text \<open>
  C8. The defaults meet every constraint of the configuration surface: the outbound
  rate is 10 and the burst 50 (both positive), the two recursion depths are 50 each
  (not negative), the collection page size is 10 (positive) whatever database kind is
  asked for, and the header lists signed for GET and for POST requests each hold
  \<^verbatim>\<open>(request-target)\<close>, \<^verbatim>\<open>Date\<close> and \<^verbatim>\<open>Digest\<close>. The same values are those of the
  configuration that \<^verbatim>\<open>defaultConfig\<close> builds for postgres.
\<close>

theorem default_configuration_meets_constraints:
  "OutboundRateLimitQPS defaultActivityPubConfig = 10
   \<and> 0 < OutboundRateLimitQPS defaultActivityPubConfig
   \<and> OutboundRateLimitBurst defaultActivityPubConfig = 50
   \<and> 0 < OutboundRateLimitBurst defaultActivityPubConfig
   \<and> MaxInboxForwardingRecursionDepth defaultActivityPubConfig = 50
   \<and> 0 \<le> MaxInboxForwardingRecursionDepth defaultActivityPubConfig
   \<and> MaxDeliveryRecursionDepth defaultActivityPubConfig = 50
   \<and> 0 \<le> MaxDeliveryRecursionDepth defaultActivityPubConfig
   \<and> DefaultCollectionPageSize (fst (defaultDatabaseConfig dbkind)) = 10
   \<and> 0 < DefaultCollectionPageSize (fst (defaultDatabaseConfig dbkind))
   \<and> HttpSignaturesConfig defaultActivityPubConfig = defaultHttpSignaturesConfig
   \<and> {''(request-target)'', ''Date'', ''Digest''} \<subseteq> set (GetHeaders defaultHttpSignaturesConfig)
   \<and> {''(request-target)'', ''Date'', ''Digest''} \<subseteq> set (PostHeaders defaultHttpSignaturesConfig)
   \<and> (\<exists>c. defaultConfig ''postgres'' = (Some c, None)
          \<and> ActivityPubConfig c = defaultActivityPubConfig
          \<and> DefaultCollectionPageSize (DatabaseConfig c) = 10)"
proof -
  have ap: "OutboundRateLimitQPS defaultActivityPubConfig = 10"
    "OutboundRateLimitBurst defaultActivityPubConfig = 50"
    "MaxInboxForwardingRecursionDepth defaultActivityPubConfig = 50"
    "MaxDeliveryRecursionDepth defaultActivityPubConfig = 50"
    "HttpSignaturesConfig defaultActivityPubConfig = defaultHttpSignaturesConfig"
    by (simp_all add: defaultActivityPubConfig_def)
  have hs: "GetHeaders defaultHttpSignaturesConfig = [''(request-target)'', ''Date'', ''Digest'']"
    "PostHeaders defaultHttpSignaturesConfig = [''(request-target)'', ''Date'', ''Digest'']"
    by (simp_all add: defaultHttpSignaturesConfig_def)
  have pg: "\<exists>c. defaultConfig ''postgres'' = (Some c, None)
          \<and> ActivityPubConfig c = defaultActivityPubConfig
          \<and> DefaultCollectionPageSize (DatabaseConfig c) = 10"
    by (simp add: defaultConfig_def defaultDatabaseConfig_postgres)
  show ?thesis
    using pg by (simp add: ap hs defaultDatabaseConfig_page_size)
qed

text \<open>
  C10. \<^verbatim>\<open>defaultConfig\<close> fails for every database kind but \<^verbatim>\<open>postgres\<close>: no
  configuration is returned and the error names the kind. For \<^verbatim>\<open>postgres\<close> it
  returns no error and a configuration whose database section has the kind
  \<^verbatim>\<open>postgres\<close>, 2 idle connections at most and a collection page size of 10.
\<close>

theorem defaultConfig_by_kind:
  "(dbkind \<noteq> ''postgres'' \<longrightarrow>
      defaultConfig dbkind =
        (None, Some (Errorf (''unsupported database kind: '' @ dbkind))))
   \<and> (\<exists>c. defaultConfig ''postgres'' = (Some c, None)
          \<and> DatabaseKind (DatabaseConfig c) = ''postgres''
          \<and> MaxIdleConns (DatabaseConfig c) = 2
          \<and> DefaultCollectionPageSize (DatabaseConfig c) = 10)"
proof (intro conjI impI)
  assume other: "dbkind \<noteq> ''postgres''"
  obtain d where d: "defaultDatabaseConfig dbkind =
      (d, Some (Errorf (''unsupported database kind: '' @ dbkind)))"
    using defaultDatabaseConfig_other [OF other]
    by (cases "defaultDatabaseConfig dbkind") simp
  show "defaultConfig dbkind =
      (None, Some (Errorf (''unsupported database kind: '' @ dbkind)))"
    by (simp add: defaultConfig_def d)
next
  show "\<exists>c. defaultConfig ''postgres'' = (Some c, None)
          \<and> DatabaseKind (DatabaseConfig c) = ''postgres''
          \<and> MaxIdleConns (DatabaseConfig c) = 2
          \<and> DefaultCollectionPageSize (DatabaseConfig c) = 10"
    by (simp add: defaultConfig_def defaultDatabaseConfig_postgres)
qed

theorem defaultConfig_by_kind_witness:
  "''mysql'' \<noteq> ''postgres''
   \<and> defaultConfig ''mysql'' = (None, Some (Errorf ''unsupported database kind: mysql''))
   \<and> (\<exists>c. defaultConfig ''postgres'' = (Some c, None)
          \<and> DatabaseKind (DatabaseConfig c) = ''postgres''
          \<and> MaxIdleConns (DatabaseConfig c) = 2
          \<and> DefaultCollectionPageSize (DatabaseConfig c) = 10)"
  using defaultConfig_by_kind [of "''mysql''"] by simp

section \<open>What the storage does\<close>

text \<open>
  C9. Whatever the store, the context and the arguments, every method of \<^verbatim>\<open>apdb\<close>
  returns a \<^verbatim>\<open>nil\<close> error and leaves the store as it was, and every method with a
  result beside the error returns the zero value of its type: \<^verbatim>\<open>false\<close>, no object,
  no page, no collection, no identifier. \<^verbatim>\<open>Lock\<close> and \<^verbatim>\<open>Unlock\<close> are total
  functions with that one answer, so they neither wait nor fail for any identifier.
\<close>

theorem apdb_methods_return_zero_values:
  "Lock a c iri = (a, None)
   \<and> Unlock a c iri = (a, None)
   \<and> InboxContains a c inbox iri = (a, False, None)
   \<and> GetInbox a c iri = (a, None, None)
   \<and> SetInbox a c page = (a, None)
   \<and> Owns a c iri = (a, False, None)
   \<and> ActorForOutbox a c iri = (a, None, None)
   \<and> ActorForInbox a c iri = (a, None, None)
   \<and> OutboxForInbox a c iri = (a, None, None)
   \<and> Exists a c iri = (a, False, None)
   \<and> Get a c iri = (a, None, None)
   \<and> Create a c obj = (a, None)
   \<and> Update a c obj = (a, None)
   \<and> Delete a c iri = (a, None)
   \<and> GetOutbox a c iri = (a, None, None)
   \<and> SetOutbox a c page = (a, None)
   \<and> NewId a c obj = (a, None, None)
   \<and> Followers a c iri = (a, None, None)
   \<and> Following a c iri = (a, None, None)
   \<and> Liked a c iri = (a, None, None)"
  by (simp add: Lock_def Unlock_def InboxContains_def GetInbox_def SetInbox_def Owns_def
      ActorForOutbox_def ActorForInbox_def OutboxForInbox_def Exists_def Get_def Create_def
      Update_def Delete_def GetOutbox_def SetOutbox_def NewId_def Followers_def
      Following_def Liked_def)

text \<open>
  C3, on the code. A note is created in a fresh store, read back by its id, and
  created again. The first \<^verbatim>\<open>Create\<close> returns \<^verbatim>\<open>nil\<close>; the \<^verbatim>\<open>Get\<close> that follows
  returns no object (and no error) instead of the note; the second \<^verbatim>\<open>Create\<close> returns
  \<^verbatim>\<open>nil\<close> again instead of a conflict.
\<close>

theorem apdb_create_get_create:
  "(case Create (newApdb ()) () (Some exampleNote) of
      (a1, created) \<Rightarrow>
        (case Get a1 () (JSONLDId exampleNote) of
           (a2, found, getErr) \<Rightarrow>
             (case Create a2 () (Some exampleNote) of
                (a3, createdAgain) \<Rightarrow>
                  (created, found :: vocabType option, getErr, createdAgain))))
   = (None, None, None, None)"
  by (simp add: Create_def Get_def)

text \<open>
  C4, on the code. In a fresh store, where nothing was ever created, \<^verbatim>\<open>Get\<close> of an
  id returns no object and a \<^verbatim>\<open>nil\<close> error, \<^verbatim>\<open>Update\<close> of an object with that id
  returns \<^verbatim>\<open>nil\<close> and \<^verbatim>\<open>Delete\<close> of the id returns \<^verbatim>\<open>nil\<close>: none of them reports
  that the id is unknown.
\<close>

theorem apdb_unknown_id_no_error:
  "Get (newApdb ()) () (Some ''https://example.com/notes/1'')
     = (newApdb (), None :: vocabType option, None)
   \<and> Update (newApdb ()) () (Some editedNote) = (newApdb (), None)
   \<and> Delete (newApdb ()) () (Some ''https://example.com/notes/1'') = (newApdb (), None)"
  by (simp add: Get_def Update_def Delete_def)

text \<open>
  C5, on the code. Two callers, 1 and 2, call \<^verbatim>\<open>Lock\<close> for the same identifier one
  after the other, and nobody calls \<^verbatim>\<open>Unlock\<close>. Both calls return \<^verbatim>\<open>nil\<close>, so in the
  state reached both callers hold the identifier: the second acquire succeeded while
  the first holder had not released.
\<close>

theorem apdb_lock_two_holders:
  "holders
     (lockTrace () (newApdb ())
        [Acquire (1::nat) ''https://example.com/actors/ann'',
         Acquire 2 ''https://example.com/actors/ann''])
     ''https://example.com/actors/ann'' = [2, 1]"
  by (simp add: lockTrace_def holders_def Lock_def)

section \<open>Composing the actor\<close>

text \<open>
  C1. \<^verbatim>\<open>newActor\<close> is a function of four cases of the application's two answers.
  Neither C2S nor S2S: no actor and the error. C2S alone: the actor that
  \<^verbatim>\<open>pub.NewSocialActor\<close> builds from the common and the social behaviour. S2S alone:
  the actor that \<^verbatim>\<open>pub.NewFederatingActor\<close> builds from the common and the federating
  behaviour. Both: the actor that \<^verbatim>\<open>pub.NewActor\<close> builds from all three. So the
  variant composed, if any, is read off the two answers alone, and there is an error
  exactly when both answers are no.
\<close>

theorem newActor_four_cases:
  "newActor c a clock p d ap oa tc =
     (if \<not> C2SEnabled a \<and> \<not> S2SEnabled a then
        (None, Some (Errorf ''neither C2S nor S2S are enabled by the Application''))
      else if C2SEnabled a \<and> \<not> S2SEnabled a then
        (Some (NewSocialActor (newCommonBehavior a p d tc oa) (newSocialBehavior a d oa) ap clock),
         None)
      else if \<not> C2SEnabled a \<and> S2SEnabled a then
        (Some (NewFederatingActor (newCommonBehavior a p d tc oa)
                 (newFederatingBehavior c a p d tc) ap clock),
         None)
      else
        (Some (NewActor (newCommonBehavior a p d tc oa) (newSocialBehavior a d oa)
                 (newFederatingBehavior c a p d tc) ap clock),
         None))
   \<and> map_option variantOf (fst (newActor c a clock p d ap oa tc)) =
       (if C2SEnabled a then (if S2SEnabled a then Some Combined else Some SocialOnly)
        else (if S2SEnabled a then Some FederatingOnly else None))
   \<and> (snd (newActor c a clock p d ap oa tc) = None) = (C2SEnabled a \<or> S2SEnabled a)"
  by (simp add: newActor_def Let_def)

theorem newActor_four_cases_witness:
  "composed False False =
     (None, Some (Errorf ''neither C2S nor S2S are enabled by the Application''))
   \<and> map_option variantOf (fst (composed True False)) = Some SocialOnly
   \<and> snd (composed True False) = None
   \<and> map_option variantOf (fst (composed False True)) = Some FederatingOnly
   \<and> snd (composed False True) = None
   \<and> map_option variantOf (fst (composed True True)) = Some Combined
   \<and> snd (composed True True) = None"
  using
    newActor_four_cases [of exampleConfig "exampleApp False False" "()" "()" "()" "newApdb ()" "()" "()"]
    newActor_four_cases [of exampleConfig "exampleApp True False" "()" "()" "()" "newApdb ()" "()" "()"]
    newActor_four_cases [of exampleConfig "exampleApp False True" "()" "()" "()" "newApdb ()" "()" "()"]
    newActor_four_cases [of exampleConfig "exampleApp True True" "()" "()" "()" "newApdb ()" "()" "()"]
  by (simp add: composed_def exampleApp_def)

section \<open>Sending through the framework\<close>

text \<open>
  C2. Whatever the context, the outbox and the activity: \<^verbatim>\<open>Send\<close> returns the error
  "federation is not enabled" when the framework's flag is off; with the flag on it
  returns the error "not a pub.FederatingActor" when there is no actor or the actor is
  the social-only one; with the flag on and a federating-only or combined actor it
  calls the actor's own \<^verbatim>\<open>Send\<close> and returns the error that call returns. Hence
  \<^verbatim>\<open>Send\<close> returns \<^verbatim>\<open>nil\<close> only with the flag on, a federating-only or combined
  actor, and a \<^verbatim>\<open>nil\<close> from that actor. The two errors are plain \<^verbatim>\<open>fmt.Errorf\<close>
  values; they are what the spec calls \<^verbatim>\<open>UnsupportedOperation\<close>.
\<close>

theorem Send_cases:
  "(\<not> federationEnabled f \<longrightarrow>
      Send fa_Send f c outbox t =
        Some (Errorf ''cannot Send: Framework.Send called when federation is not enabled''))
   \<and> (federationEnabled f
        \<and> (actor f = None \<or> map_option variantOf (actor f) = Some SocialOnly) \<longrightarrow>
      Send fa_Send f c outbox t =
        Some (Errorf
          ''cannot Send: pub.Actor is not a pub.FederatingActor with federation enabled''))
   \<and> (\<forall>fa. federationEnabled f \<and> actor f = Some fa \<and> variantOf fa \<noteq> SocialOnly \<longrightarrow>
      Send fa_Send f c outbox t = snd (fa_Send fa c outbox t))
   \<and> (Send fa_Send f c outbox t = None \<longrightarrow>
      federationEnabled f
      \<and> (\<exists>fa. actor f = Some fa
            \<and> (variantOf fa = FederatingOnly \<or> variantOf fa = Combined)
            \<and> snd (fa_Send fa c outbox t) = None))"
proof -
  have shape: "asFederatingActor act =
      (case act of None \<Rightarrow> None
       | Some fa \<Rightarrow> if variantOf fa = SocialOnly then None else Some fa)"
    for act :: "('a, 'b, 'c, 'd, 'e) actor option"
    by (cases act rule: asFederatingActor.cases) simp_all
  have other: "variantOf fa \<noteq> SocialOnly \<Longrightarrow> variantOf fa = FederatingOnly \<or> variantOf fa = Combined"
    for fa :: "('a, 'b, 'c, 'd, 'e) actor"
    by (cases fa) simp_all
  show ?thesis
    by (auto simp: Send_def shape split: option.splits if_splits dest: other)
qed

theorem Send_cases_witness:
  "Send delivering (exampleFramework False True False) ()
       (Some ''https://example.com/actors/ann/outbox'') (Some exampleNote)
     = Some (Errorf ''cannot Send: Framework.Send called when federation is not enabled'')
   \<and> Send delivering (exampleFramework True False True) ()
       (Some ''https://example.com/actors/ann/outbox'') (Some exampleNote)
     = Some (Errorf
         ''cannot Send: pub.Actor is not a pub.FederatingActor with federation enabled'')
   \<and> Send delivering (exampleFramework False False True) ()
       (Some ''https://example.com/actors/ann/outbox'') (Some exampleNote)
     = Some (Errorf
         ''cannot Send: pub.Actor is not a pub.FederatingActor with federation enabled'')
   \<and> Send delivering (exampleFramework False True True) ()
       (Some ''https://example.com/actors/ann/outbox'') (Some exampleNote)
     = None
   \<and> Send undeliverable (exampleFramework True True True) ()
       (Some ''https://example.com/actors/ann/outbox'') (Some exampleNote)
     = Some (Errorf ''no route to peer'')
   \<and> federationEnabled (exampleFramework False True True)
   \<and> (\<exists>fa. actor (exampleFramework False True True) = Some fa
         \<and> (variantOf fa = FederatingOnly \<or> variantOf fa = Combined))"
proof -
  let ?out = "Some ''https://example.com/actors/ann/outbox''"
  let ?note = "Some exampleNote"
  have fed: "federationEnabled (exampleFramework cs ss b) = b" for cs ss b
    by (simp add: exampleFramework_def newFramework_def)
  have act: "actor (exampleFramework cs ss b) = fst (composed cs ss)" for cs ss b
    by (simp add: exampleFramework_def newFramework_def)
  have none: "fst (composed False False) = None"
    by (simp add: composed_def newActor_def exampleApp_def)
  have social: "map_option variantOf (fst (composed True False)) = Some SocialOnly"
    by (simp add: composed_def newActor_def exampleApp_def)
  obtain fa where fa: "fst (composed False True) = Some fa" "variantOf fa = FederatingOnly"
    by (simp add: composed_def newActor_def exampleApp_def)
  obtain ca where ca: "fst (composed True True) = Some ca" "variantOf ca = Combined"
    by (simp add: composed_def newActor_def exampleApp_def)
  have off: "Send delivering (exampleFramework False True False) () ?out ?note
      = Some (Errorf ''cannot Send: Framework.Send called when federation is not enabled'')"
    using Send_cases [of "exampleFramework False True False" delivering "()" ?out ?note]
    by (simp add: fed)
  have soc: "Send delivering (exampleFramework True False True) () ?out ?note
      = Some (Errorf
         ''cannot Send: pub.Actor is not a pub.FederatingActor with federation enabled'')"
    using Send_cases [of "exampleFramework True False True" delivering "()" ?out ?note] social
    by (simp add: fed act)
  have nil: "Send delivering (exampleFramework False False True) () ?out ?note
      = Some (Errorf
         ''cannot Send: pub.Actor is not a pub.FederatingActor with federation enabled'')"
    using Send_cases [of "exampleFramework False False True" delivering "()" ?out ?note] none
    by (simp add: fed act)
  have "Send delivering (exampleFramework False True True) () ?out ?note
      = snd (delivering fa () ?out ?note)"
    using Send_cases [of "exampleFramework False True True" delivering "()" ?out ?note] fa
    by (simp add: fed act)
  then have sent: "Send delivering (exampleFramework False True True) () ?out ?note = None"
    by (simp add: delivering_def)
  have "Send undeliverable (exampleFramework True True True) () ?out ?note
      = snd (undeliverable ca () ?out ?note)"
    using Send_cases [of "exampleFramework True True True" undeliverable "()" ?out ?note] ca
    by (simp add: fed act)
  then have lost: "Send undeliverable (exampleFramework True True True) () ?out ?note
      = Some (Errorf ''no route to peer'')"
    by (simp add: undeliverable_def)
  have only: "federationEnabled (exampleFramework False True True)
      \<and> (\<exists>fa. actor (exampleFramework False True True) = Some fa
            \<and> (variantOf fa = FederatingOnly \<or> variantOf fa = Combined))"
    using Send_cases [of "exampleFramework False True True" delivering "()" ?out ?note] sent
    by blast
  from off soc nil sent lost only show ?thesis
    by (intro conjI) simp_all
qed

section \<open>Validating a credential\<close>

text \<open>
  C6. \<^verbatim>\<open>framework.ValidateOAuth2AccessToken\<close>, run over the OAuth2 server modelled
  from the spec, has three outcomes. A request with no credential, with a malformed
  one, or with a well-formed one that the available store does not hold (a revoked
  one) is not authenticated and gets no error. A request whose credential the store
  holds is authenticated and gets that credential's token. An error is returned
  exactly when the subsystem fails, that is when a well-formed credential has to be
  looked up and the store is unavailable.
\<close>

theorem validate_tri_state:
  "(credential r = None \<or> credential r = Some Malformed
      \<or> (\<exists>tok store. credential r = Some (Bearer tok) \<and> tokenStore (o' f) = Some store
            \<and> store tok = None) \<longrightarrow>
      (\<exists>t. ValidateOAuth2AccessToken oAuth2Server_ValidateOAuth2AccessToken f w r
             = (t, False, None)))
   \<and> (\<forall>tok store ti.
        credential r = Some (Bearer tok) \<and> tokenStore (o' f) = Some store
        \<and> store tok = Some ti \<longrightarrow>
        ValidateOAuth2AccessToken oAuth2Server_ValidateOAuth2AccessToken f w r
          = (Some ti, True, None))
   \<and> ((snd (snd (ValidateOAuth2AccessToken oAuth2Server_ValidateOAuth2AccessToken f w r))
          \<noteq> None)
        = ((\<exists>tok. credential r = Some (Bearer tok)) \<and> tokenStore (o' f) = None))"
proof (intro conjI impI allI)
  assume "credential r = None \<or> credential r = Some Malformed
      \<or> (\<exists>tok store. credential r = Some (Bearer tok) \<and> tokenStore (o' f) = Some store
            \<and> store tok = None)"
  then show "\<exists>t. ValidateOAuth2AccessToken oAuth2Server_ValidateOAuth2AccessToken f w r
             = (t, False, None)"
    by (auto simp: ValidateOAuth2AccessToken_def oAuth2Server_ValidateOAuth2AccessToken_def)
next
  fix tok store ti
  assume "credential r = Some (Bearer tok) \<and> tokenStore (o' f) = Some store
        \<and> store tok = Some ti"
  then show "ValidateOAuth2AccessToken oAuth2Server_ValidateOAuth2AccessToken f w r
          = (Some ti, True, None)"
    by (simp add: ValidateOAuth2AccessToken_def oAuth2Server_ValidateOAuth2AccessToken_def)
next
  show "(snd (snd (ValidateOAuth2AccessToken oAuth2Server_ValidateOAuth2AccessToken f w r))
          \<noteq> None)
        = ((\<exists>tok. credential r = Some (Bearer tok)) \<and> tokenStore (o' f) = None)"
    by (simp add: ValidateOAuth2AccessToken_def oAuth2Server_ValidateOAuth2AccessToken_def
        ValidationFailure_def split: option.splits credential.splits)
qed

theorem validate_tri_state_witness:
  "(\<exists>t. ValidateOAuth2AccessToken oAuth2Server_ValidateOAuth2AccessToken (gate serverUp) ()
          \<lparr> credential = None \<rparr> = (t, False, None))
   \<and> (\<exists>t. ValidateOAuth2AccessToken oAuth2Server_ValidateOAuth2AccessToken (gate serverUp) ()
          \<lparr> credential = Some Malformed \<rparr> = (t, False, None))
   \<and> (\<exists>t. ValidateOAuth2AccessToken oAuth2Server_ValidateOAuth2AccessToken (gate serverUp) ()
          \<lparr> credential = Some (Bearer ''revoked'') \<rparr> = (t, False, None))
   \<and> ValidateOAuth2AccessToken oAuth2Server_ValidateOAuth2AccessToken (gate serverUp) ()
          \<lparr> credential = Some (Bearer ''s3cret'') \<rparr> = (Some annToken, True, None)
   \<and> snd (snd (ValidateOAuth2AccessToken oAuth2Server_ValidateOAuth2AccessToken
          (gate serverDown) () \<lparr> credential = Some (Bearer ''s3cret'') \<rparr>)) \<noteq> None
   \<and> snd (snd (ValidateOAuth2AccessToken oAuth2Server_ValidateOAuth2AccessToken
          (gate serverDown) () \<lparr> credential = None \<rparr>)) = None"
proof -
  have up: "tokenStore (o' (gate serverUp)) = Some [''s3cret'' \<mapsto> annToken]"
    by (simp add: gate_def newFramework_def serverUp_def)
  have down: "tokenStore (o' (gate serverDown)) = None"
    by (simp add: gate_def newFramework_def serverDown_def)
  have absent: "\<exists>t. ValidateOAuth2AccessToken oAuth2Server_ValidateOAuth2AccessToken
      (gate serverUp) () \<lparr> credential = None \<rparr> = (t, False, None)"
    using validate_tri_state [of "\<lparr> credential = None \<rparr>" "gate serverUp" "()"]
    by simp
  have malformed: "\<exists>t. ValidateOAuth2AccessToken oAuth2Server_ValidateOAuth2AccessToken
      (gate serverUp) () \<lparr> credential = Some Malformed \<rparr> = (t, False, None)"
    using validate_tri_state [of "\<lparr> credential = Some Malformed \<rparr>" "gate serverUp" "()"]
    by simp
  have revoked: "\<exists>t. ValidateOAuth2AccessToken oAuth2Server_ValidateOAuth2AccessToken
      (gate serverUp) () \<lparr> credential = Some (Bearer ''revoked'') \<rparr> = (t, False, None)"
    using validate_tri_state
      [of "\<lparr> credential = Some (Bearer ''revoked'') \<rparr>" "gate serverUp" "()"]
    by (simp add: up)
  have valid: "ValidateOAuth2AccessToken oAuth2Server_ValidateOAuth2AccessToken (gate serverUp) ()
      \<lparr> credential = Some (Bearer ''s3cret'') \<rparr> = (Some annToken, True, None)"
    using validate_tri_state
      [of "\<lparr> credential = Some (Bearer ''s3cret'') \<rparr>" "gate serverUp" "()"]
    by (simp add: up)
  have outage: "snd (snd (ValidateOAuth2AccessToken oAuth2Server_ValidateOAuth2AccessToken
      (gate serverDown) () \<lparr> credential = Some (Bearer ''s3cret'') \<rparr>)) \<noteq> None"
    using validate_tri_state
      [of "\<lparr> credential = Some (Bearer ''s3cret'') \<rparr>" "gate serverDown" "()"]
    by (simp add: down)
  have idle: "snd (snd (ValidateOAuth2AccessToken oAuth2Server_ValidateOAuth2AccessToken
      (gate serverDown) () \<lparr> credential = None \<rparr>)) = None"
    using validate_tri_state [of "\<lparr> credential = None \<rparr>" "gate serverDown" "()"]
    by (simp add: down)
  from absent malformed revoked valid outage idle show ?thesis
    by (intro conjI)
qed

end
